theory Spec2Isabelle
  imports Main "HOL-Library.Word"
begin

section \<open>Organisms (organism.h)\<close>

subsection \<open>Data model\<close>

text \<open>
  The class template \<open>Organism<species_t, can_eat_meat, can_eat_plants>\<close> has two
  members, \<open>species\<close> and \<open>vitality\<close> (a \<open>uint64_t\<close>), and two boolean template
  parameters. HOL has no value-indexed types, so the two compile-time flags travel with
  the value as record fields; a function whose C++ return type is the type of \<open>*this\<close>
  returns a record with the flags of its receiver. \<open>species_t\<close> is the type parameter
  \<open>'s\<close>; \<open>std::equality_comparable\<close> is HOL equality.
\<close>

type_synonym u64 = "64 word"

record 's Organism =
  species :: 's
  vitality :: u64
  can_eat_meat :: bool
  can_eat_plants :: bool

text \<open>The constructor \<open>Organism(species, vitality)\<close> at a given pair of flags.\<close>

definition mk_Organism :: "bool \<Rightarrow> bool \<Rightarrow> 's \<Rightarrow> u64 \<Rightarrow> 's Organism" where
  "mk_Organism eats_m eats_p s v =
     \<lparr>species = s, vitality = v, can_eat_meat = eats_m, can_eat_plants = eats_p\<rparr>"

text \<open>The four aliases of lines 74--84.\<close>

definition Carnivore :: "'s \<Rightarrow> u64 \<Rightarrow> 's Organism" where
  "Carnivore = mk_Organism True False"

definition Omnivore :: "'s \<Rightarrow> u64 \<Rightarrow> 's Organism" where
  "Omnivore = mk_Organism True True"

definition Herbivore :: "'s \<Rightarrow> u64 \<Rightarrow> 's Organism" where
  "Herbivore = mk_Organism False True"

definition Plant :: "'s \<Rightarrow> u64 \<Rightarrow> 's Organism" where
  "Plant = mk_Organism False False"

definition get_vitality :: "'s Organism \<Rightarrow> u64" where
  "get_vitality self = vitality self"

definition get_species :: "'s Organism \<Rightarrow> 's" where
  "get_species self = species self"

definition is_dead :: "'s Organism \<Rightarrow> bool" where
  "is_dead self = (vitality self = 0)"

definition is_plant :: "'s Organism \<Rightarrow> bool" where
  "is_plant self = (\<not> can_eat_meat self \<and> \<not> can_eat_plants self)"

subsection \<open>eat\<close>

text \<open>
  The two \<open>constexpr bool\<close>s of lines 40 and 41: whether the receiver's diet permits
  eating the other's kind, and whether the other's diet permits eating the receiver's.
\<close>

definition this_can_eat :: "'s Organism \<Rightarrow> 's Organism \<Rightarrow> bool" where
  "this_can_eat self other =
     (if is_plant other then can_eat_plants self else can_eat_meat self)"

definition o_can_eat :: "'s Organism \<Rightarrow> 's Organism \<Rightarrow> bool" where
  "o_can_eat self other =
     (if is_plant self then can_eat_plants other else can_eat_meat other)"

text \<open>
  Lines 50--55: what \<open>eat\<close> does once the first \<open>if constexpr\<close> block has not
  returned.
\<close>

definition eat_tail :: "'s Organism \<Rightarrow> 's Organism \<Rightarrow> 's Organism" where
  "eat_tail self other =
     (if o_can_eat self other then
        (if is_plant self \<or> get_vitality other > vitality self
            \<or> (this_can_eat self other \<and> get_vitality other = vitality self)
         then mk_Organism (can_eat_meat self) (can_eat_plants self) (species self) 0
         else self)
      else self)"

text \<open>
  Lines 37--56. All arithmetic is \<open>uint64_t\<close> arithmetic: \<open>+\<close> wraps modulo \<open>2 ^ 64\<close>,
  \<open>div\<close> is unsigned division, \<open>>\<close> is the unsigned order.
\<close>

definition eat :: "'s Organism \<Rightarrow> 's Organism \<Rightarrow> 's Organism" where
  "eat self other =
     (if this_can_eat self other then
        (if is_plant other then
           mk_Organism (can_eat_meat self) (can_eat_plants self)
             (species self) (vitality self + get_vitality other)
         else if vitality self > get_vitality other then
           mk_Organism (can_eat_meat self) (can_eat_plants self)
             (species self) (vitality self + get_vitality other div 2)
         else eat_tail self other)
      else eat_tail self other)"

subsection \<open>breed\<close>

text \<open>
  \<open>std::midpoint\<close> of \<open><numeric>\<close> is the C++20 standard library's, not this
  repository's. It is modelled by the algorithm the library implementations use for
  unsigned integers: the distance of the two arguments is halved and added to, or
  subtracted from, the first one. \<open>midpoint_exact\<close> below shows that this is the
  standard's contract (half the sum, rounded towards the first argument).
\<close>

definition midpoint :: "u64 \<Rightarrow> u64 \<Rightarrow> u64" where
  "midpoint a b = (if a > b then a - (a - b) div 2 else a + (b - a) div 2)"

text \<open>Lines 58--61.\<close>

definition breed :: "'s Organism \<Rightarrow> 's Organism \<Rightarrow> 's Organism" where
  "breed self other =
     mk_Organism (can_eat_meat self) (can_eat_plants self) (species self)
       (midpoint (min (vitality self) (get_vitality other))
                 (max (vitality self) (get_vitality other)))"

subsection \<open>encounter\<close>

text \<open>
  \<open>encounter\<close> carries the constraint
  \<open>requires (o1_eats_m || o1_eats_p || o2_eats_m || o2_eats_p)\<close> (line 87): a call at
  two plant types is rejected by the compiler. The model makes the rejection a value.
\<close>

datatype error = ConstraintNotSatisfied

definition encounter_requires :: "'s Organism \<Rightarrow> 's Organism \<Rightarrow> bool" where
  "encounter_requires organism1 organism2 =
     (can_eat_meat organism1 \<or> can_eat_plants organism1
        \<or> can_eat_meat organism2 \<or> can_eat_plants organism2)"

text \<open>Lines 86--101.\<close>

definition encounter ::
  "'s Organism \<Rightarrow> 's Organism \<Rightarrow> error + ('s Organism \<times> 's Organism \<times> 's Organism option)"
where
  "encounter organism1 organism2 =
     (if \<not> encounter_requires organism1 organism2 then Inl ConstraintNotSatisfied
      else if is_dead organism1 \<or> is_dead organism2 then
        Inr (organism1, organism2, None)
      else if (can_eat_meat organism1 = can_eat_meat organism2
                 \<and> can_eat_plants organism1 = can_eat_plants organism2)
              \<and> get_species organism1 = get_species organism2 then
        Inr (organism1, organism2, Some (breed organism1 organism2))
      else Inr (eat organism1 organism2, eat organism2 organism1, None))"

subsection \<open>The series\<close>

text \<open>
  Lines 65--72: \<open>organism_operators::operator+\<close> is \<open>get<0>(encounter(o1, o2))\<close>, and
  is ill-formed where \<open>encounter\<close> is.
\<close>

definition operator_plus :: "'s Organism \<Rightarrow> 's Organism \<Rightarrow> error + 's Organism" where
  "operator_plus o1 o2 =
     (case encounter o1 o2 of
        Inl e \<Rightarrow> Inl e
      | Inr r \<Rightarrow> Inr (fst r))"

text \<open>
  Lines 103--108: the binary left fold \<open>(organism1 + ... + args)\<close>, that is
  \<open>((organism1 + a1) + a2) + ...\<close>, and \<open>organism1\<close> itself for an empty pack. The
  operands of every \<open>+\<close> must type-check, so an ill-formed step makes the whole
  expression ill-formed.
\<close>

definition encounter_series :: "'s Organism \<Rightarrow> 's Organism list \<Rightarrow> error + 's Organism" where
  "encounter_series organism1 args =
     foldl (\<lambda>acc x. case acc of Inl e \<Rightarrow> Inl e | Inr p \<Rightarrow> operator_plus p x)
       (Inr organism1) args"


subsection \<open>Auxiliary notions used to state the properties\<close>

text \<open>
  When the first block of \<open>eat\<close> (lines 42--49) returns: the receiver can eat the
  other's kind, and the other is a plant or strictly less vital.
\<close>

definition eat_branch1 :: "'s Organism \<Rightarrow> 's Organism \<Rightarrow> bool" where
  "eat_branch1 self other =
     (this_can_eat self other \<and> (is_plant other \<or> vitality self > get_vitality other))"

text \<open>The condition of the second block (lines 50--54).\<close>

definition eat_branch2 :: "'s Organism \<Rightarrow> 's Organism \<Rightarrow> bool" where
  "eat_branch2 self other =
     (o_can_eat self other
        \<and> (is_plant self \<or> get_vitality other > vitality self
             \<or> (this_can_eat self other \<and> get_vitality other = vitality self)))"

text \<open>
  The series as the specification words it, to be compared with \<open>encounter_series\<close>:
  start with the protagonist; for each further organism \<open>x\<close> in order, replace the
  running value \<open>p\<close> by the first component of \<open>encounter(p, x)\<close>; the resolved \<open>x\<close>
  and the offspring are dropped.
\<close>

fun encounter_series_spec :: "'s Organism \<Rightarrow> 's Organism list \<Rightarrow> error + 's Organism" where
  "encounter_series_spec p [] = Inr p"
| "encounter_series_spec p (x # xs) =
     (case encounter p x of
        Inl e \<Rightarrow> Inl e
      | Inr (p', x', offspring) \<Rightarrow> encounter_series_spec p' xs)"

section \<open>Basic facts\<close>

lemmas organism_defs = mk_Organism_def Carnivore_def Omnivore_def Herbivore_def Plant_def
  get_vitality_def get_species_def is_dead_def is_plant_def this_can_eat_def o_can_eat_def

lemma unat_u64_bound: "unat (w :: u64) < 2 ^ 64"
  using unsigned_less [of w, where 'a = nat] by simp

text \<open>Constructing at the receiver's flags and species only replaces the vitality.\<close>

lemma mk_Organism_update:
  "mk_Organism (can_eat_meat self) (can_eat_plants self) (species self) v
     = self\<lparr>vitality := v\<rparr>"
  by (simp add: mk_Organism_def)

subsection \<open>eat\<close>

lemma eat_tail_alt:
  "eat_tail self other =
     (if o_can_eat self other
         \<and> (is_plant self \<or> vitality self < vitality other
              \<or> (this_can_eat self other \<and> vitality other = vitality self))
      then self\<lparr>vitality := 0\<rparr> else self)"
  unfolding eat_tail_def get_vitality_def mk_Organism_update by simp

lemma eat_alt:
  "eat self other =
     (if this_can_eat self other \<and> is_plant other
        then self\<lparr>vitality := vitality self + vitality other\<rparr>
      else if this_can_eat self other \<and> vitality other < vitality self
        then self\<lparr>vitality := vitality self + vitality other div 2\<rparr>
      else eat_tail self other)"
  unfolding eat_def get_vitality_def mk_Organism_update by simp

text \<open>The three outcomes of \<open>eat\<close> by the two branch conditions.\<close>

lemma eat_branches:
  "eat self other =
     (if eat_branch1 self other then
        (if is_plant other then self\<lparr>vitality := vitality self + vitality other\<rparr>
         else self\<lparr>vitality := vitality self + vitality other div 2\<rparr>)
      else if eat_branch2 self other then self\<lparr>vitality := 0\<rparr>
      else self)"
  unfolding eat_alt eat_tail_alt eat_branch1_def eat_branch2_def get_vitality_def
  by auto

lemma eat_no_branch:
  "\<not> eat_branch1 self other \<Longrightarrow> \<not> eat_branch2 self other \<Longrightarrow> eat self other = self"
  by (simp add: eat_branches)

text \<open>\<open>eat\<close> returns an organism of the receiver's type and species.\<close>

lemma eat_keeps:
  "species (eat self other) = species self"
  "can_eat_meat (eat self other) = can_eat_meat self"
  "can_eat_plants (eat self other) = can_eat_plants self"
  by (simp_all add: eat_alt eat_tail_alt)

text \<open>A plant eats nothing: whoever can eat something is not a plant.\<close>

lemma this_can_eat_not_plant:
  "this_can_eat self other \<Longrightarrow> \<not> is_plant self"
  by (auto simp: this_can_eat_def is_plant_def split: if_splits)

text \<open>Two organisms that can eat each other and are equally vital: the receiver dies.\<close>

lemma eat_tie:
  assumes "this_can_eat self other" and "this_can_eat other self"
    and "vitality self = vitality other"
  shows "eat self other = self\<lparr>vitality := 0\<rparr>"
proof -
  have np: "\<not> is_plant self" "\<not> is_plant other"
    using assms(1,2) by (simp_all add: this_can_eat_not_plant)
  have oe: "o_can_eat self other"
    using assms(2) np by (simp add: o_can_eat_def this_can_eat_def)
  have "eat self other = eat_tail self other"
    using np assms(3) by (simp add: eat_alt)
  also have "\<dots> = self\<lparr>vitality := 0\<rparr>"
    using oe assms(1,3) by (simp add: eat_tail_alt)
  finally show ?thesis .
qed

subsection \<open>midpoint and breed\<close>

text \<open>
  For ordered arguments the midpoint is half the sum, and the sum \<open>midpoint\<close> forms on
  the way stays below \<open>2 ^ 64\<close>.
\<close>

lemma midpoint_ordered:
  assumes "a \<le> b"
  shows "unat (midpoint a b) = (unat a + unat b) div 2"
    and "unat a + unat ((b - a) div 2) < 2 ^ 64"
proof -
  have ab: "unat a \<le> unat b"
    using assms by (simp add: word_le_nat_alt)
  have d: "unat (b - a) = unat b - unat a"
    using assms by (rule unat_sub)
  have h: "unat ((b - a) div 2) = (unat b - unat a) div 2"
    by (simp add: unat_div d)
  have "unat a + (unat b - unat a) div 2 \<le> unat b"
    using ab by arith
  then show fits: "unat a + unat ((b - a) div 2) < 2 ^ 64"
    using unat_u64_bound [of b] h by arith
  then have "unat (a + (b - a) div 2) = unat a + unat ((b - a) div 2)"
    by (simp add: unat_add_lem [THEN iffD1])
  also have "\<dots> = (unat a + unat b) div 2"
    using ab h by arith
  finally show "unat (midpoint a b) = (unat a + unat b) div 2"
    using assms by (simp add: midpoint_def not_less [symmetric])
qed

text \<open>
  The contract of \<open>std::midpoint\<close> on integers: half the sum, rounded towards the first
  argument when the sum is odd.
\<close>

lemma midpoint_exact:
  "unat (midpoint a b) =
     (if a \<le> b then (unat a + unat b) div 2 else (unat a + unat b + 1) div 2)"
proof (cases "a \<le> b")
  case True
  then show ?thesis by (simp add: midpoint_ordered)
next
  case False
  then have ba: "b \<le> a" "b < a" by simp_all
  have ab: "unat b \<le> unat a"
    using ba by (simp add: word_le_nat_alt)
  have d: "unat (a - b) = unat a - unat b"
    using ba by (simp add: unat_sub)
  have h: "unat ((a - b) div 2) = (unat a - unat b) div 2"
    by (simp add: unat_div d)
  have "(a - b) div 2 \<le> a"
    using ab h by (simp add: word_le_nat_alt)
  then have "unat (a - (a - b) div 2) = unat a - unat ((a - b) div 2)"
    by (rule unat_sub)
  also have "\<dots> = (unat a + unat b + 1) div 2"
    using ab h by arith
  finally show ?thesis
    using False ba by (simp add: midpoint_def)
qed

lemma unat_min: "unat (min a b) = min (unat a) (unat (b :: u64))"
  by (simp add: min_def word_le_nat_alt)

lemma unat_max: "unat (max a b) = max (unat a) (unat (b :: u64))"
  by (simp add: max_def word_le_nat_alt)

lemma min_le_max: "min a b \<le> max a (b :: u64)"
  by (rule order_trans [OF min.cobounded1 max.cobounded1])

lemma breed_vitality:
  "unat (vitality (breed self other)) = (unat (vitality self) + unat (vitality other)) div 2"
proof -
  have "unat (vitality (breed self other))
          = (unat (min (vitality self) (vitality other))
              + unat (max (vitality self) (vitality other))) div 2"
    by (simp add: breed_def mk_Organism_def get_vitality_def
          midpoint_ordered(1) [OF min_le_max])
  also have "\<dots> = (unat (vitality self) + unat (vitality other)) div 2"
    by (simp add: unat_min unat_max)
  finally show ?thesis .
qed

subsection \<open>encounter\<close>

lemma encounter_defined:
  "encounter_requires o1 o2 \<Longrightarrow> \<exists>r. encounter o1 o2 = Inr r"
  by (simp add: encounter_def)

lemma encounter_cases:
  assumes "encounter o1 o2 = Inr (a, b, c)"
  shows "(a = o1 \<and> b = o2) \<or> (a = eat o1 o2 \<and> b = eat o2 o1)"
  using assms unfolding encounter_def
  by (simp split: if_splits)

lemma encounter_flags:
  assumes "encounter o1 o2 = Inr (a, b, c)"
  shows "can_eat_meat a = can_eat_meat o1" and "can_eat_plants a = can_eat_plants o1"
    and "species a = species o1" and "species b = species o2"
  using encounter_cases [OF assms] by (auto simp: eat_keeps)

lemma encounter_requires_cong:
  "can_eat_meat a = can_eat_meat o1 \<Longrightarrow> can_eat_plants a = can_eat_plants o1
     \<Longrightarrow> encounter_requires a x = encounter_requires o1 x"
  by (simp add: encounter_requires_def)

subsection \<open>The series\<close>

text \<open>Once a step is ill-formed, the fold stays so.\<close>

lemma foldl_step_Inl:
  "foldl (\<lambda>acc x. case acc of Inl e \<Rightarrow> Inl e | Inr p \<Rightarrow> operator_plus p x) (Inl e) xs = Inl e"
  by (induction xs) simp_all

lemma encounter_series_Nil: "encounter_series p [] = Inr p"
  by (simp add: encounter_series_def)

lemma encounter_series_Cons:
  "encounter_series p (x # xs) =
     (case operator_plus p x of Inl e \<Rightarrow> Inl e | Inr p' \<Rightarrow> encounter_series p' xs)"
  by (cases "operator_plus p x") (simp_all add: encounter_series_def foldl_step_Inl)

text \<open>
  The running value keeps the protagonist's flags, so the series is well-formed as soon
  as the protagonist may meet every organism of the list.
\<close>

lemma encounter_series_defined:
  "\<forall>x \<in> set xs. encounter_requires p x \<Longrightarrow> \<exists>r. encounter_series p xs = Inr r"
proof (induction xs arbitrary: p)
  case Nil
  show ?case by (simp add: encounter_series_Nil)
next
  case (Cons x xs)
  then have "encounter_requires p x" by simp
  then obtain a b c where r: "encounter p x = Inr (a, b, c)"
    using encounter_defined [of p x] by (metis prod_cases3)
  have "\<forall>y \<in> set xs. encounter_requires a y"
    using Cons.prems encounter_flags(1,2) [OF r]
    by (simp add: encounter_requires_cong [of a p])
  then obtain q where "encounter_series a xs = Inr q"
    using Cons.IH by blast
  then show ?case
    by (simp add: encounter_series_Cons operator_plus_def r)
qed

section \<open>Same-kind encounters (C1)\<close>

text \<open>
  C1 as stated fails: the dead check of lines 92--94 comes before the breeding branch.
  Two carnivores of one species, the first with vitality 0, satisfy the claim's
  hypotheses, and \<open>encounter\<close> returns no offspring.
\<close>

theorem encounter_same_kind_dead_counterexample:
  "can_eat_meat (Carnivore (1::nat) 0) = can_eat_meat (Carnivore (1::nat) 5)
   \<and> can_eat_plants (Carnivore (1::nat) 0) = can_eat_plants (Carnivore (1::nat) 5)
   \<and> species (Carnivore (1::nat) 0) = species (Carnivore (1::nat) 5)
   \<and> encounter (Carnivore (1::nat) 0) (Carnivore 1 5)
       = Inr (Carnivore 1 0, Carnivore 1 5, None)
   \<and> encounter (Carnivore (1::nat) 0) (Carnivore 1 5)
       \<noteq> Inr (Carnivore 1 0, Carnivore 1 5, Some (breed (Carnivore 1 0) (Carnivore 1 5)))"
  by (simp add: encounter_def encounter_requires_def organism_defs)

text \<open>
  C1, amended: for two organisms with identical diet flags and equal species (a pair
  that \<open>encounter\<close>'s constraint admits, so not two plants), \<open>encounter\<close> returns both
  originals unchanged; the offspring is \<open>o1.breed(o2)\<close> when both vitalities are
  nonzero, and there is none when one or both are zero.
\<close>

theorem encounter_same_kind:
  assumes "can_eat_meat o1 = can_eat_meat o2" and "can_eat_plants o1 = can_eat_plants o2"
    and "species o1 = species o2"
    and "encounter_requires o1 o2"
  shows "encounter o1 o2 =
           Inr (o1, o2, if is_dead o1 \<or> is_dead o2 then None else Some (breed o1 o2))"
  using assms by (simp add: encounter_def get_species_def)

theorem encounter_same_kind_witness:
  "encounter (Omnivore (3::nat) 10) (Omnivore 3 4)
     = Inr (Omnivore 3 10, Omnivore 3 4, Some (Omnivore 3 7))
   \<and> encounter (Omnivore (3::nat) 10) (Omnivore 3 0)
     = Inr (Omnivore 3 10, Omnivore 3 0, None)"
  using encounter_same_kind [of "Omnivore (3::nat) 10" "Omnivore 3 4"]
    encounter_same_kind [of "Omnivore (3::nat) 10" "Omnivore 3 0"]
  by (simp add: encounter_requires_def breed_def midpoint_def organism_defs)

section \<open>Mutual predators of equal vitality (C2)\<close>

text \<open>
  C2: two organisms of different species, each able to eat the other's kind, with equal
  nonzero vitality: \<open>encounter\<close> returns both with vitality 0 and no offspring.
\<close>

theorem encounter_mutual_predators_tie:
  assumes "species o1 \<noteq> species o2"
    and "this_can_eat o1 o2" and "this_can_eat o2 o1"
    and "vitality o1 = vitality o2" and "vitality o1 \<noteq> 0"
  shows "encounter o1 o2 = Inr (o1\<lparr>vitality := 0\<rparr>, o2\<lparr>vitality := 0\<rparr>, None)"
proof -
  have "\<not> is_plant o1"
    using assms(2) by (rule this_can_eat_not_plant)
  then have req: "encounter_requires o1 o2"
    by (auto simp: encounter_requires_def is_plant_def)
  have alive: "\<not> is_dead o1" "\<not> is_dead o2"
    using assms(4,5) by (simp_all add: is_dead_def)
  have e1: "eat o1 o2 = o1\<lparr>vitality := 0\<rparr>"
    using assms(2,3,4) by (rule eat_tie)
  have e2: "eat o2 o1 = o2\<lparr>vitality := 0\<rparr>"
    using assms(3,2) assms(4) [symmetric] by (rule eat_tie)
  show ?thesis
    unfolding encounter_def get_species_def e1 e2
    using req alive assms(1) by simp
qed

theorem encounter_mutual_predators_tie_witness:
  "encounter (Carnivore (1::nat) 5) (Omnivore 2 5) = Inr (Carnivore 1 0, Omnivore 2 0, None)"
  using encounter_mutual_predators_tie [of "Carnivore (1::nat) 5" "Omnivore 2 5"]
  by (simp add: organism_defs)

section \<open>Eating a plant (C3)\<close>

text \<open>
  C3: a receiver whose diet permits eating plants, against a plant: \<open>eat\<close> returns the
  receiver with its vitality replaced by the sum of the two vitalities, whatever they
  are. The sum is the \<open>uint64_t\<close> sum of line 44; read as a number it is the sum of the
  two numbers modulo \<open>2 ^ 64\<close>.
\<close>

theorem eat_plant_absorbs:
  assumes "can_eat_plants self" and "is_plant other"
  shows "eat self other = self\<lparr>vitality := vitality self + vitality other\<rparr>
       \<and> species (eat self other) = species self
       \<and> vitality (eat self other) = vitality self + vitality other
       \<and> unat (vitality (eat self other))
           = (unat (vitality self) + unat (vitality other)) mod 2 ^ 64"
  using assms
  by (simp add: eat_alt this_can_eat_def unat_word_ariths)

theorem eat_plant_absorbs_witness:
  "eat (Omnivore (1::nat) 10) (Plant 2 5) = Omnivore 1 15"
  using eat_plant_absorbs [of "Omnivore (1::nat) 10" "Plant 2 5"]
  by (simp add: organism_defs)

section \<open>Eating an animal (C4)\<close>

text \<open>
  C4: a receiver whose diet permits eating the kind of a non-plant other. If the receiver
  is strictly more vital, \<open>eat\<close> returns it with the vitality
  \<open>vitality + other.vitality / 2\<close> (unsigned division, so the floor of the half; the sum
  is the \<open>uint64_t\<close> sum). Otherwise the first block does not return and \<open>eat\<close> is what
  lines 50--55 compute: the receiver dies if the other can eat it, and is returned
  unchanged if not.
\<close>

theorem eat_animal:
  assumes "this_can_eat self other" and "\<not> is_plant other"
  shows "(vitality self > vitality other \<longrightarrow>
            eat self other = self\<lparr>vitality := vitality self + vitality other div 2\<rparr>
          \<and> species (eat self other) = species self
          \<and> vitality (eat self other) = vitality self + vitality other div 2
          \<and> unat (vitality other div 2) = unat (vitality other) div 2
          \<and> unat (vitality (eat self other))
              = (unat (vitality self) + unat (vitality other) div 2) mod 2 ^ 64)
       \<and> (\<not> vitality self > vitality other \<longrightarrow>
            eat self other = eat_tail self other
          \<and> eat self other = (if o_can_eat self other then self\<lparr>vitality := 0\<rparr> else self))"
proof -
  have gt: "eat self other = self\<lparr>vitality := vitality self + vitality other div 2\<rparr>"
    if "vitality other < vitality self"
    using assms that by (simp add: eat_alt)
  have num: "unat (vitality self + vitality other div 2)
               = (unat (vitality self) + unat (vitality other) div 2) mod 2 ^ 64"
    by (simp add: unat_word_ariths unat_div mod_add_right_eq)
  have le: "eat self other = eat_tail self other" if "\<not> vitality other < vitality self"
    using assms that by (simp add: eat_alt)
  have tail: "eat_tail self other = (if o_can_eat self other then self\<lparr>vitality := 0\<rparr> else self)"
    if "\<not> vitality other < vitality self"
    using assms(1) that unfolding eat_tail_alt by auto
  show ?thesis
    using gt le tail num by (simp add: unat_div)
qed

theorem eat_animal_witness:
  "eat (Carnivore (1::nat) 10) (Carnivore 2 4) = Carnivore 1 12
   \<and> eat (Carnivore (1::nat) 4) (Carnivore 2 10) = eat_tail (Carnivore 1 4) (Carnivore 2 10)
   \<and> eat (Carnivore (1::nat) 4) (Carnivore 2 10) = Carnivore 1 0
   \<and> eat (Carnivore (1::nat) 5) (Herbivore 2 5) = eat_tail (Carnivore 1 5) (Herbivore 2 5)
   \<and> eat (Carnivore (1::nat) 5) (Herbivore 2 5) = Carnivore 1 5"
  using eat_animal [of "Carnivore (1::nat) 10" "Carnivore 2 4"]
    eat_animal [of "Carnivore (1::nat) 4" "Carnivore 2 10"]
    eat_animal [of "Carnivore (1::nat) 5" "Herbivore 2 5"]
  by (simp add: eat_tail_alt organism_defs)

section \<open>Dead organisms (C5)\<close>

text \<open>
  C5: when one of the two vitalities is 0, \<open>encounter\<close> returns both organisms
  unchanged and no offspring, whatever the diets, the species and the other vitality, at
  every pair of diets for which \<open>encounter\<close> exists (its constraint, line 87).
\<close>

theorem encounter_dead:
  assumes "encounter_requires o1 o2" and "is_dead o1 \<or> is_dead o2"
  shows "encounter o1 o2 = Inr (o1, o2, None)"
  using assms by (simp add: encounter_def)

theorem encounter_dead_witness:
  "encounter (Plant (1::nat) 0) (Herbivore 2 7) = Inr (Plant 1 0, Herbivore 2 7, None)
   \<and> encounter (Carnivore (1::nat) 9) (Carnivore 1 0) = Inr (Carnivore 1 9, Carnivore 1 0, None)"
  using encounter_dead [of "Plant (1::nat) 0" "Herbivore 2 7"]
    encounter_dead [of "Carnivore (1::nat) 9" "Carnivore 1 0"]
  by (simp add: encounter_requires_def organism_defs)

section \<open>No branch of eat applies (C6)\<close>

text \<open>
  C6 as stated fails: for two live herbivores of one species and equal vitality neither
  branch of \<open>eat\<close> applies on either side, each \<open>eat\<close> returns its receiver unchanged,
  and yet \<open>encounter\<close> takes the breeding branch (lines 95--99) and returns an
  offspring.
\<close>

theorem encounter_no_branch_breeds_counterexample:
  "\<not> eat_branch1 (Herbivore (1::nat) 5) (Herbivore (1::nat) 5)
   \<and> \<not> eat_branch2 (Herbivore (1::nat) 5) (Herbivore (1::nat) 5)
   \<and> eat (Herbivore (1::nat) 5) (Herbivore (1::nat) 5) = Herbivore 1 5
   \<and> encounter (Herbivore (1::nat) 5) (Herbivore 1 5)
        = Inr (Herbivore 1 5, Herbivore 1 5, Some (Herbivore 1 5))
   \<and> encounter (Herbivore (1::nat) 5) (Herbivore 1 5)
        \<noteq> Inr (Herbivore 1 5, Herbivore 1 5, None)"
  by (simp add: encounter_def encounter_requires_def eat_branches eat_branch1_def
        eat_branch2_def breed_def midpoint_def organism_defs)

text \<open>
  C6, amended: for a pair that \<open>encounter\<close> admits and for which neither branch 1 nor
  branch 2 of \<open>eat\<close> applies on either side, each side's \<open>eat\<close> returns its receiver
  unchanged and \<open>encounter\<close> returns both organisms unchanged; there is no offspring,
  unless both are alive with identical diet flags and equal species, where the offspring
  is \<open>o1.breed(o2)\<close>.
\<close>

theorem encounter_no_branch:
  assumes "encounter_requires o1 o2"
    and "\<not> eat_branch1 o1 o2" and "\<not> eat_branch2 o1 o2"
    and "\<not> eat_branch1 o2 o1" and "\<not> eat_branch2 o2 o1"
  shows "eat o1 o2 = o1 \<and> eat o2 o1 = o2
       \<and> encounter o1 o2 =
           Inr (o1, o2,
                if \<not> is_dead o1 \<and> \<not> is_dead o2
                   \<and> can_eat_meat o1 = can_eat_meat o2
                   \<and> can_eat_plants o1 = can_eat_plants o2
                   \<and> species o1 = species o2
                then Some (breed o1 o2) else None)"
proof -
  have e: "eat o1 o2 = o1" "eat o2 o1 = o2"
    using assms(2-5) by (simp_all add: eat_no_branch)
  show ?thesis
    unfolding encounter_def get_species_def e
    using assms(1) by simp
qed

theorem encounter_no_branch_witness:
  "encounter (Carnivore (1::nat) 5) (Herbivore 2 5) = Inr (Carnivore 1 5, Herbivore 2 5, None)
   \<and> eat (Carnivore (1::nat) 5) (Herbivore 2 5) = Carnivore 1 5
   \<and> eat (Herbivore (2::nat) 5) (Carnivore 1 5) = Herbivore 2 5"
  using encounter_no_branch [of "Carnivore (1::nat) 5" "Herbivore 2 5"]
  by (simp add: encounter_requires_def eat_branch1_def eat_branch2_def organism_defs)

section \<open>Breeding (C7)\<close>

text \<open>
  C7: for any two organisms, of any species and diets, \<open>breed\<close> returns an organism of
  the receiver's species whose vitality is, as a number, the floor of half the sum of the
  smaller and the larger vitality. It lies between the two, and the one sum formed on the
  way (the smaller vitality plus half the distance) stays below \<open>2 ^ 64\<close>: nothing
  overflows.
\<close>

theorem breed_midpoint:
  "species (breed self other) = species self
   \<and> unat (vitality (breed self other))
       = (min (unat (vitality self)) (unat (vitality other))
          + max (unat (vitality self)) (unat (vitality other))) div 2
   \<and> unat (min (vitality self) (vitality other))
       + unat ((max (vitality self) (vitality other)
                - min (vitality self) (vitality other)) div 2) < 2 ^ 64
   \<and> min (vitality self) (vitality other) \<le> vitality (breed self other)
   \<and> vitality (breed self other) \<le> max (vitality self) (vitality other)"
proof -
  let ?lo = "min (vitality self) (vitality other)"
  let ?hi = "max (vitality self) (vitality other)"
  have le: "?lo \<le> ?hi" by (rule min_le_max)
  have v: "vitality (breed self other) = midpoint ?lo ?hi"
    by (simp add: breed_def mk_Organism_def get_vitality_def)
  have m: "unat (midpoint ?lo ?hi) = (unat ?lo + unat ?hi) div 2"
    using le by (rule midpoint_ordered(1))
  have lohi: "unat ?lo \<le> unat ?hi"
    using le by (simp only: word_le_nat_alt)
  have 1: "species (breed self other) = species self"
    by (simp add: breed_def mk_Organism_def)
  have 2: "unat (vitality (breed self other))
       = (min (unat (vitality self)) (unat (vitality other))
          + max (unat (vitality self)) (unat (vitality other))) div 2"
    unfolding v m by (simp only: unat_min unat_max)
  have 3: "unat ?lo + unat ((?hi - ?lo) div 2) < 2 ^ 64"
    using le by (rule midpoint_ordered(2))
  have 4: "?lo \<le> vitality (breed self other)"
    unfolding v word_le_nat_alt m using lohi by arith
  have 5: "vitality (breed self other) \<le> ?hi"
    unfolding v word_le_nat_alt m using lohi by arith
  from 1 2 3 4 5 show ?thesis by (intro conjI)
qed

theorem breed_midpoint_witness:
  "breed (Carnivore (1::nat) 10) (Carnivore 1 4) = Carnivore 1 7
   \<and> unat (vitality (breed (Omnivore (1::nat) 18446744073709551615)
                             (Herbivore 2 18446744073709551614)))
       = 18446744073709551614"
  using breed_midpoint [of "Omnivore (1::nat) 18446744073709551615"
                           "Herbivore 2 18446744073709551614"]
  by (simp add: breed_def midpoint_def organism_defs)

section \<open>The series (C8)\<close>

text \<open>
  C8: \<open>encounter_series\<close> is the left fold of the specification: the running value is
  replaced by the first component of its encounter with each organism in order, the
  resolved organism and the offspring are dropped; on an empty sequence it returns the
  protagonist. It returns a value whenever the protagonist may meet every organism of
  the sequence.
\<close>

theorem encounter_series_fold:
  "encounter_series P xs = encounter_series_spec P xs
   \<and> encounter_series P [] = Inr P
   \<and> ((\<forall>x \<in> set xs. encounter_requires P x) \<longrightarrow> (\<exists>r. encounter_series P xs = Inr r))"
proof -
  have "encounter_series P xs = encounter_series_spec P xs"
  proof (induction xs arbitrary: P)
    case Nil
    show ?case by (simp add: encounter_series_Nil)
  next
    case (Cons x xs)
    show ?case
    proof (cases "encounter P x")
      case (Inl e)
      then show ?thesis by (simp add: encounter_series_Cons operator_plus_def)
    next
      case (Inr r)
      then show ?thesis
        by (cases r) (simp add: encounter_series_Cons operator_plus_def Cons.IH)
    qed
  qed
  moreover have "encounter_series P [] = Inr P"
    by (rule encounter_series_Nil)
  moreover have "(\<forall>x \<in> set xs. encounter_requires P x)
                   \<longrightarrow> (\<exists>r. encounter_series P xs = Inr r)"
    using encounter_series_defined [of xs P] by blast
  ultimately show ?thesis by (intro conjI)
qed

theorem encounter_series_fold_witness:
  "encounter_series (Carnivore (1::nat) 10) [Carnivore 2 4, Herbivore 3 30, Plant 4 7]
     = encounter_series_spec (Carnivore 1 10) [Carnivore 2 4, Herbivore 3 30, Plant 4 7]
   \<and> (\<exists>r. encounter_series (Carnivore (1::nat) 10) [Carnivore 2 4, Herbivore 3 30, Plant 4 7]
            = Inr r)
   \<and> encounter_series (Carnivore (1::nat) 10) [Carnivore 2 4, Herbivore 3 30, Plant 4 7]
       = Inr (Carnivore 1 12)"
proof -
  have "\<forall>x \<in> set [Carnivore 2 4, Herbivore 3 30, Plant (4::nat) 7].
          encounter_requires (Carnivore (1::nat) 10) x"
    by (simp add: encounter_requires_def organism_defs)
  moreover
  have "encounter_series (Carnivore (1::nat) 10) [Carnivore 2 4, Herbivore 3 30, Plant 4 7]
          = Inr (Carnivore 1 12)"
    by (simp add: encounter_series_Cons encounter_series_Nil operator_plus_def
          encounter_def encounter_requires_def eat_alt eat_tail_alt organism_defs)
  ultimately show ?thesis
    using encounter_series_fold
      [of "Carnivore (1::nat) 10" "[Carnivore 2 4, Herbivore 3 30, Plant 4 7]"]
    by blast
qed

section \<open>Overflow (C9)\<close>

text \<open>
  C9 as stated fails in its part on \<open>breed\<close>: there are no two organisms for which the
  vitality \<open>breed\<close> returns differs from the exact half of the sum, or for which the sum
  formed on the way reaches \<open>2 ^ 64\<close>.
\<close>

theorem breed_never_overflows_counterexample:
  "\<not> (\<exists>(self :: nat Organism) (other :: nat Organism).
         unat (vitality (breed self other))
           \<noteq> (unat (vitality self) + unat (vitality other)) div 2
         \<or> 2 ^ 64 \<le> unat (min (vitality self) (vitality other))
                    + unat ((max (vitality self) (vitality other)
                              - min (vitality self) (vitality other)) div 2))"
proof -
  have "unat (min v w) + unat ((max v w - min v w) div 2) < 2 ^ 64" for v w :: u64
    using min_le_max by (rule midpoint_ordered(2))
  then show ?thesis
    by (simp add: breed_vitality not_le)
qed

text \<open>
  C9, amended: the two additive branches of \<open>eat\<close> are unchecked \<open>uint64_t\<close> sums: the
  vitality returned is the sum of the two numbers modulo \<open>2 ^ 64\<close>, and there are inputs
  where it wraps (the largest vitality eating a plant of vitality 1, or an animal of
  vitality 2, ends at 0), with no saturation and no error. The average of \<open>breed\<close>
  never overflows: it is always the exact floor of half the sum.
\<close>

theorem eat_wraps_breed_exact:
  "(can_eat_plants self \<and> is_plant other \<longrightarrow>
      unat (vitality (eat self other))
        = (unat (vitality self) + unat (vitality other)) mod 2 ^ 64)
   \<and> (this_can_eat self other \<and> \<not> is_plant other \<and> vitality other < vitality self \<longrightarrow>
      unat (vitality (eat self other))
        = (unat (vitality self) + unat (vitality other) div 2) mod 2 ^ 64)
   \<and> vitality (eat (Omnivore s 18446744073709551615) (Plant t 1)) = 0
   \<and> vitality (eat (Carnivore s 18446744073709551615) (Carnivore t 2)) = 0
   \<and> unat (vitality (breed self other))
        = (unat (vitality self) + unat (vitality other)) div 2"
proof -
  have 1: "can_eat_plants self \<and> is_plant other \<longrightarrow>
      unat (vitality (eat self other))
        = (unat (vitality self) + unat (vitality other)) mod 2 ^ 64"
    by (simp add: eat_alt this_can_eat_def unat_word_ariths)
  have 2: "this_can_eat self other \<and> \<not> is_plant other \<and> vitality other < vitality self \<longrightarrow>
      unat (vitality (eat self other))
        = (unat (vitality self) + unat (vitality other) div 2) mod 2 ^ 64"
    by (simp add: eat_alt unat_word_ariths unat_div mod_add_right_eq)
  have 3: "vitality (eat (Omnivore s 18446744073709551615) (Plant t 1)) = 0"
    by (simp add: eat_alt organism_defs)
  have 4: "vitality (eat (Carnivore s 18446744073709551615) (Carnivore t 2)) = 0"
    by (simp add: eat_alt organism_defs)
  from 1 2 3 4 breed_vitality [of self other] show ?thesis by (intro conjI)
qed

theorem eat_wraps_breed_exact_witness:
  "unat (vitality (eat (Omnivore (1::nat) 18446744073709551615) (Plant 2 1))) = 0
   \<and> unat (vitality (eat (Carnivore (1::nat) 18446744073709551615) (Carnivore 2 2))) = 0
   \<and> unat (vitality (breed (Carnivore (1::nat) 18446744073709551615)
                             (Carnivore 1 18446744073709551615))) = 18446744073709551615"
  using eat_wraps_breed_exact [where self = "Omnivore (1::nat) 18446744073709551615"
      and other = "Plant 2 1" and s = "1::nat" and t = 2]
    eat_wraps_breed_exact [where self = "Carnivore (1::nat) 18446744073709551615"
      and other = "Carnivore 2 2" and s = "1::nat" and t = 2]
    eat_wraps_breed_exact [where self = "Carnivore (1::nat) 18446744073709551615"
      and other = "Carnivore 1 18446744073709551615" and s = "1::nat" and t = 2]
  by (simp add: organism_defs)

section \<open>Species (C10)\<close>

text \<open>
  C10: \<open>eat\<close> and \<open>breed\<close> return an organism of the receiver's species, for any two
  organisms (\<open>breed\<close> compares no species); and wherever \<open>encounter\<close> exists, it
  returns a triple whose first and second components have the species of the first and
  of the second organism.
\<close>

theorem species_preserved:
  "species (eat self other) = species self
   \<and> species (breed self other) = species self
   \<and> (encounter_requires o1 o2 \<longrightarrow>
        (\<exists>a b c. encounter o1 o2 = Inr (a, b, c)
                  \<and> species a = species o1 \<and> species b = species o2))"
proof -
  have "\<exists>a b c. encounter o1 o2 = Inr (a, b, c)
                  \<and> species a = species o1 \<and> species b = species o2"
    if req: "encounter_requires o1 o2"
  proof -
    obtain a b c where r: "encounter o1 o2 = Inr (a, b, c)"
      using encounter_defined [OF req] by (metis prod_cases3)
    then show ?thesis
      using encounter_flags(3,4) [OF r] by blast
  qed
  then show ?thesis
    by (simp add: eat_keeps breed_def mk_Organism_def)
qed

theorem species_preserved_witness:
  "species (eat (Carnivore (1::nat) 10) (Carnivore 2 4)) = 1
   \<and> species (breed (Carnivore (1::nat) 10) (Herbivore 2 4)) = 1
   \<and> (\<exists>a b c. encounter (Carnivore (1::nat) 10) (Carnivore 2 4) = Inr (a, b, c)
                \<and> species a = 1 \<and> species b = 2)"
  using species_preserved [of "Carnivore (1::nat) 10" "Carnivore 2 4"
                              "Carnivore (1::nat) 10" "Carnivore 2 4"]
    species_preserved [of "Carnivore (1::nat) 10" "Herbivore 2 4"
                          "Carnivore (1::nat) 10" "Carnivore 2 4"]
  by (simp add: encounter_requires_def organism_defs)

end
